theory Spec2Isabelle
  imports Complex_Main
begin

section \<open>Doubles\<close>

text \<open>
  A C \<^verbatim>\<open>double\<close>: a finite value, an infinity or a NaN. Its \<^verbatim>\<open>operator==\<close>
  holds of two finite values that are the same and of an infinity and itself; a NaN is
  equal to nothing, itself included.
\<close>

datatype double = Finite real | PlusInfinity | MinusInfinity | NaN

fun double_eq :: "double \<Rightarrow> double \<Rightarrow> bool" where
  "double_eq (Finite a) (Finite b) = (a = b)"
| "double_eq PlusInfinity PlusInfinity = True"
| "double_eq MinusInfinity MinusInfinity = True"
| "double_eq _ _ = False"

section \<open>Tag sets of the multi-track property dialog\<close>

text \<open>
  A \<^verbatim>\<open>QSet<T>\<close> is a hash set: its entries, kept here as a list (in no order the
  program can rely on), and \<open>eq\<close>, the \<^verbatim>\<open>operator==\<close> of \<^verbatim>\<open>T\<close> that a lookup
  compares a value with an entry by; values that are equal have the same hash.
  \<^verbatim>\<open>contains\<close> finds an entry the value is equal to, and \<^verbatim>\<open>insert\<close> adds the value
  unless there is such an entry. The dialog uses the sets at \<^verbatim>\<open>QString\<close>,
  \<^verbatim>\<open>uint32_t\<close> and \<^verbatim>\<open>double\<close>.
\<close>

type_synonym 'a QSet = "'a list"

definition QSet_isEmpty :: "'a QSet \<Rightarrow> bool" where
  "QSet_isEmpty s = (s = [])"

definition QSet_contains :: "('a \<Rightarrow> 'a \<Rightarrow> bool) \<Rightarrow> 'a QSet \<Rightarrow> 'a \<Rightarrow> bool" where
  "QSet_contains eq s v = list_ex (\<lambda>e. eq v e) s"

definition QSet_insert :: "('a \<Rightarrow> 'a \<Rightarrow> bool) \<Rightarrow> 'a QSet \<Rightarrow> 'a \<Rightarrow> 'a QSet" where
  "QSet_insert eq s v = (if QSet_contains eq s v then s else s @ [v])"

text \<open>
  \<^verbatim>\<open>addToTagSet(QSet<T>* pList, const T& value)\<close>: the value is inserted when the
  set is empty or does not contain it. The function mutates the set behind the pointer;
  the model returns the new set.
\<close>

definition addToTagSet :: "('a \<Rightarrow> 'a \<Rightarrow> bool) \<Rightarrow> 'a QSet \<Rightarrow> 'a \<Rightarrow> 'a QSet" where
  "addToTagSet eq pList v =
     (if QSet_isEmpty pList \<or> \<not> QSet_contains eq pList v
      then QSet_insert eq pList v else pList)"

section \<open>Qt strings\<close>

text \<open>
  A \<^verbatim>\<open>QString\<close> is either null or a sequence of characters; \<open>None\<close> is the null
  string that \<^verbatim>\<open>QString()\<close> constructs and \<^verbatim>\<open>isNull()\<close> tests for.
  \<^verbatim>\<open>operator==\<close> compares the characters, so the null and the empty string are equal.
  \<^verbatim>\<open>trimmed()\<close> removes the whitespace at both ends (here the ASCII whitespace) and
  keeps a null string null.
\<close>

type_synonym QString = "string option"

definition isNull :: "QString \<Rightarrow> bool" where
  "isNull s = (s = None)"

definition chars :: "QString \<Rightarrow> string" where
  "chars s = (case s of None \<Rightarrow> [] | Some cs \<Rightarrow> cs)"

definition qeq :: "QString \<Rightarrow> QString \<Rightarrow> bool" where
  "qeq a b = (chars a = chars b)"

definition isSpace :: "char \<Rightarrow> bool" where
  "isSpace c = (c = CHR '' '' \<or> c = CHR 0x09 \<or> c = CHR 0x0A \<or> c = CHR 0x0B
                \<or> c = CHR 0x0C \<or> c = CHR 0x0D)"

definition trimmed :: "QString \<Rightarrow> QString" where
  "trimmed s = map_option (\<lambda>cs. rev (dropWhile isSpace (rev (dropWhile isSpace cs)))) s"

text \<open>\<^verbatim>\<open>kVariousText\<close>, with the untranslated word.\<close>

definition kVariousText :: QString where
  "kVariousText = Some ''<various>''"

section \<open>Tracks and track records\<close>

text \<open>
  The part of a \<^verbatim>\<open>mixxx::TrackRecord\<close> that \<^verbatim>\<open>saveTracks\<close> writes: the tags of
  the track and album info, the colour, the rating, and the id it is looked up by. A tag
  is modelled by its characters, which is what \<^verbatim>\<open>QString\<close> equality compares.
\<close>

type_synonym TrackId = int
type_synonym TrackPointer = nat
type_synonym RgbColor = nat

record TrackInfo =
  title :: string
  artist :: string
  genre :: string
  composer :: string
  grouping :: string
  year :: string
  keyText :: string
  trackNumber :: string
  comment :: string

record AlbumInfo =
  albumTitle :: string
  albumArtist :: string

record TrackRecord =
  trackId :: TrackId
  trackInfo :: TrackInfo
  albumInfo :: AlbumInfo
  color :: "RgbColor option"
  rating :: int

text \<open>
  A \<^verbatim>\<open>Track\<close> object behind a \<^verbatim>\<open>TrackPointer\<close>: its record, and how many times
  its \<^verbatim>\<open>changed\<close> signal is connected to the dialog's \<^verbatim>\<open>slotTrackChanged\<close>.
  The tracks live in a store from pointers to objects.
\<close>

record Track =
  trackRecord :: TrackRecord
  changedConnections :: nat

type_synonym track_store = "TrackPointer \<rightharpoonup> Track"

section \<open>The widgets the dialog reads back\<close>

text \<open>
  An editable \<^verbatim>\<open>QComboBox\<close>, by the properties the dialog uses: the dynamic property
  \<^verbatim>\<open>origVal\<close> (as the string \<^verbatim>\<open>toString()\<close> gives), the current index, the text of
  its line edit (which is \<^verbatim>\<open>currentText()\<close> of an editable box), the placeholder of
  the line edit, the items (the values, and whether the "clear tag for all tracks" item
  is there), whether the items were sorted, and the enabled and focus flags.
\<close>

record QComboBox =
  origVal :: QString
  currentIndex :: int
  lineEditText :: QString
  placeholderText :: QString
  valueItems :: "string list"
  clearItem :: bool
  itemsSorted :: bool
  enabled :: bool
  hasFocus :: bool

text \<open>The comment editor, a \<^verbatim>\<open>QPlainTextEdit\<close>.\<close>

record QPlainTextEdit =
  plainText :: QString
  editPlaceholderText :: QString
  editOrigVal :: QString

section \<open>The multi-track property dialog\<close>

text \<open>
  \<^verbatim>\<open>DlgTrackInfoMulti\<close>: the members \<^verbatim>\<open>saveTracks\<close> and the functions it calls
  read or write. \<^verbatim>\<open>m_pLoadedTracks\<close> is a hash from track ids to track pointers, kept
  as an association list in iteration order. \<open>starRating\<close> is the rating the star widget
  shows. The widgets that only display (the labels for location, BPM, bitrate, sample
  rate, type and duration, the colour button and its picker, the cover label) are
  \<open>otherWidgets\<close>, of a type the model does not look into.
\<close>

record 'w DlgTrackInfoMulti =
  m_pLoadedTracks :: "(TrackId \<times> TrackPointer) list"
  m_trackRecords :: "TrackRecord list"
  m_starRatingModified :: bool
  m_newRating :: int
  m_colorChanged :: bool
  m_newColor :: "RgbColor option"
  txtTitle :: QComboBox
  txtArtist :: QComboBox
  txtAlbum :: QComboBox
  txtAlbumArtist :: QComboBox
  txtGenre :: QComboBox
  txtComposer :: QComboBox
  txtGrouping :: QComboBox
  txtYear :: QComboBox
  txtKey :: QComboBox
  txtTrackNumber :: QComboBox
  txtComment :: QPlainTextEdit
  txtCommentBox :: QComboBox
  starRating :: int
  otherWidgets :: 'w

text \<open>What a member function of the dialog can reach: the dialog and the tracks.\<close>

record 'w dialog_state =
  dlg :: "'w DlgTrackInfoMulti"
  tracks :: track_store

text \<open>
  Functions of the repository that the dialog calls and that are not among the sources,
  taken as parameters: \<open>guessKeyText\<close> is \<^verbatim>\<open>KeyUtils::guessKeyFromText\<close> followed by
  \<^verbatim>\<open>KeyUtils::keyToString\<close>, null for an invalid key;
  \<open>updateGlobalKeyNormalizeText\<close> is the member of \<^verbatim>\<open>TrackRecord\<close> of that name;
  \<open>updateOtherWidgets\<close> is what \<^verbatim>\<open>updateFromTracks\<close> does to the display-only
  widgets, from the track records and the loaded tracks.
\<close>

record 'w deps =
  guessKeyText :: "QString \<Rightarrow> QString"
  updateGlobalKeyNormalizeText :: "QString \<Rightarrow> TrackRecord \<Rightarrow> TrackRecord"
  updateOtherWidgets :: "TrackRecord list \<Rightarrow> (TrackId \<times> TrackPointer) list \<Rightarrow> 'w \<Rightarrow> 'w"

text \<open>
  What stops the program: a null \<^verbatim>\<open>TrackPointer\<close> dereferenced, and \<^verbatim>\<open>first()\<close> of
  an empty list.
\<close>

datatype error = NullTrackPointer | EmptyListAccess

text \<open>\<^verbatim>\<open>validEditText(QComboBox* pBox)\<close>: null when the text has not been edited.\<close>

definition validEditText :: "QComboBox \<Rightarrow> QString" where
  "validEditText pBox =
     (if currentIndex pBox = - 1 \<and>
         (qeq (lineEditText pBox) (origVal pBox) \<or> qeq (placeholderText pBox) kVariousText)
      then None
      else trimmed (lineEditText pBox))"

text \<open>\<^verbatim>\<open>slotKeyTextChanged()\<close>, on the key box.\<close>

definition slotKeyTextChanged :: "'w deps \<Rightarrow> QComboBox \<Rightarrow> QComboBox" where
  "slotKeyTextChanged D box =
     (let newKeyText = guessKeyText D (trimmed (lineEditText box)) in
      if \<not> isNull newKeyText
      then box\<lparr>lineEditText := newKeyText, placeholderText := None\<rparr>
      else if qeq (placeholderText box) kVariousText
      then box\<lparr>lineEditText := Some []\<rparr>
      else box\<lparr>lineEditText := origVal box\<rparr>)"

text \<open>
  The values \<^verbatim>\<open>saveTracks\<close> has checked before its loop over the records: one string
  per tag, null when the tag is to be left alone.
\<close>

record edit_values =
  e_title :: QString
  e_artist :: QString
  e_album :: QString
  e_albumArtist :: QString
  e_genre :: QString
  e_composer :: QString
  e_grouping :: QString
  e_year :: QString
  e_key :: QString
  e_num :: QString
  e_comment :: QString

text \<open>The body of the first loop of \<^verbatim>\<open>saveTracks\<close>, for one record.\<close>

definition applyEdits ::
  "'w deps \<Rightarrow> edit_values \<Rightarrow> bool \<Rightarrow> RgbColor option \<Rightarrow> bool \<Rightarrow> int \<Rightarrow> TrackRecord
   \<Rightarrow> TrackRecord" where
  "applyEdits D e colorChanged newColor ratingModified newRating rec0 =
     (let rec1 = (if \<not> isNull (e_title e)
                  then rec0\<lparr>trackInfo := (trackInfo rec0)\<lparr>title := chars (e_title e)\<rparr>\<rparr>
                  else rec0);
          rec2 = (if \<not> isNull (e_artist e)
                  then rec1\<lparr>trackInfo := (trackInfo rec1)\<lparr>artist := chars (e_artist e)\<rparr>\<rparr>
                  else rec1);
          rec3 = (if \<not> isNull (e_album e)
                  then rec2\<lparr>albumInfo := (albumInfo rec2)\<lparr>albumTitle := chars (e_album e)\<rparr>\<rparr>
                  else rec2);
          rec4 = (if \<not> isNull (e_albumArtist e)
                  then rec3\<lparr>albumInfo :=
                         (albumInfo rec3)\<lparr>albumArtist := chars (e_albumArtist e)\<rparr>\<rparr>
                  else rec3);
          rec5 = (if \<not> isNull (e_genre e)
                  then rec4\<lparr>trackInfo := (trackInfo rec4)\<lparr>genre := chars (e_genre e)\<rparr>\<rparr>
                  else rec4);
          rec6 = (if \<not> isNull (e_composer e)
                  then rec5\<lparr>trackInfo := (trackInfo rec5)\<lparr>composer := chars (e_composer e)\<rparr>\<rparr>
                  else rec5);
          rec7 = (if \<not> isNull (e_grouping e)
                  then rec6\<lparr>trackInfo := (trackInfo rec6)\<lparr>grouping := chars (e_grouping e)\<rparr>\<rparr>
                  else rec6);
          rec8 = (if \<not> isNull (e_year e)
                  then rec7\<lparr>trackInfo := (trackInfo rec7)\<lparr>year := chars (e_year e)\<rparr>\<rparr>
                  else rec7);
          rec9 = (if \<not> isNull (e_key e)
                  then updateGlobalKeyNormalizeText D (e_key e) rec8
                  else rec8);
          rec10 = (if \<not> isNull (e_num e)
                   then rec9\<lparr>trackInfo := (trackInfo rec9)\<lparr>trackNumber := chars (e_num e)\<rparr>\<rparr>
                   else rec9);
          rec11 = (if \<not> isNull (e_comment e)
                   then rec10\<lparr>trackInfo := (trackInfo rec10)\<lparr>comment := chars (e_comment e)\<rparr>\<rparr>
                   else rec10);
          rec12 = (if colorChanged then rec11\<lparr>color := newColor\<rparr> else rec11)
      in if ratingModified then rec12\<lparr>rating := newRating\<rparr> else rec12)"

text \<open>
  \<^verbatim>\<open>disconnectTracksChanged()\<close> and \<^verbatim>\<open>connectTracksChanged()\<close>: for every loaded
  track, \<^verbatim>\<open>disconnect\<close> removes every connection of the signal to the slot and
  \<^verbatim>\<open>connect\<close> adds one.
\<close>

definition disconnectTracksChanged ::
  "(TrackId \<times> TrackPointer) list \<Rightarrow> track_store \<Rightarrow> track_store" where
  "disconnectTracksChanged loaded ts =
     foldl (\<lambda>m (i, p). case m p of None \<Rightarrow> m
                         | Some t \<Rightarrow> m(p \<mapsto> t\<lparr>changedConnections := 0\<rparr>)) ts loaded"

definition connectTracksChanged ::
  "(TrackId \<times> TrackPointer) list \<Rightarrow> track_store \<Rightarrow> track_store" where
  "connectTracksChanged loaded ts =
     foldl (\<lambda>m (i, p). case m p of None \<Rightarrow> m
                         | Some t \<Rightarrow> m(p \<mapsto> t\<lparr>changedConnections :=
                                                  Suc (changedConnections t)\<rparr>)) ts loaded"

text \<open>
  The second loop of \<^verbatim>\<open>saveTracks\<close>: \<^verbatim>\<open>m_pLoadedTracks.value(rec.getId())\<close> is a
  null pointer when the id is not loaded, and \<^verbatim>\<open>pTrack->replaceRecord(rec)\<close>
  dereferences it.
\<close>

fun replaceRecords ::
  "(TrackId \<times> TrackPointer) list \<Rightarrow> TrackRecord list \<Rightarrow> track_store \<Rightarrow> error + track_store" where
  "replaceRecords loaded [] ts = Inr ts"
| "replaceRecords loaded (r # rs) ts =
     (case map_of loaded (trackId r) of
        None \<Rightarrow> Inl NullTrackPointer
      | Some p \<Rightarrow>
          (case ts p of
             None \<Rightarrow> Inl NullTrackPointer
           | Some t \<Rightarrow> replaceRecords loaded rs (ts(p \<mapsto> t\<lparr>trackRecord := r\<rparr>))))"

text \<open>The first loop of \<^verbatim>\<open>updateFromTracks\<close>: the records of the loaded tracks.\<close>

fun getRecords ::
  "(TrackId \<times> TrackPointer) list \<Rightarrow> track_store \<Rightarrow> error + TrackRecord list" where
  "getRecords [] ts = Inr []"
| "getRecords ((i, p) # rest) ts =
     (case ts p of
        None \<Rightarrow> Inl NullTrackPointer
      | Some t \<Rightarrow>
          (case getRecords rest ts of
             Inl e \<Rightarrow> Inl e
           | Inr recs \<Rightarrow> Inr (trackRecord t # recs)))"

text \<open>
  \<^verbatim>\<open>addValuesToComboBox(pBox, values, sort)\<close>; \<open>doSort\<close> is its \<^verbatim>\<open>sort\<close>.
  \<^verbatim>\<open>pBox->clear()\<close> leaves a box with no item, no current item and an empty text;
  \<^verbatim>\<open>setCurrentIndex(-1)\<close> clears the text. \<^verbatim>\<open>*values.constBegin()\<close> of a set of
  one value is that value. The handlers connected to the box's signals are not run.
\<close>

definition addValuesToComboBox :: "QComboBox \<Rightarrow> string QSet \<Rightarrow> bool \<Rightarrow> QComboBox" where
  "addValuesToComboBox pBox vals doSort =
     (let b = pBox\<lparr>valueItems := [], clearItem := False, currentIndex := - 1,
                   lineEditText := Some [], placeholderText := None\<rparr>
      in if QSet_isEmpty vals then b\<lparr>origVal := None\<rparr>
         else if length vals = 1
         then b\<lparr>lineEditText := Some (hd vals), origVal := Some (hd vals)\<rparr>
         else b\<lparr>clearItem := True, valueItems := vals, itemsSorted := doSort,
                currentIndex := - 1, lineEditText := Some [],
                placeholderText := kVariousText, origVal := kVariousText\<rparr>)"

text \<open>\<^verbatim>\<open>addValuesToCommentBox(comments)\<close>, on the comment editor and its box.\<close>

definition addValuesToCommentBox ::
  "QPlainTextEdit \<Rightarrow> QComboBox \<Rightarrow> string QSet \<Rightarrow> QPlainTextEdit \<times> QComboBox" where
  "addValuesToCommentBox ed box comments =
     (let e = ed\<lparr>plainText := Some [], editPlaceholderText := None\<rparr>;
          b = box\<lparr>valueItems := [], clearItem := False, currentIndex := - 1,
                  lineEditText := Some []\<rparr>
      in if QSet_isEmpty comments then (e, b\<lparr>origVal := None\<rparr>)
         else if length comments = 1
         then (e\<lparr>plainText := Some (hd comments),
                 editOrigVal := Some (hd comments)\<rparr>,
               b\<lparr>enabled := False\<rparr>)
         else (e\<lparr>editPlaceholderText := kVariousText, editOrigVal := kVariousText\<rparr>,
               b\<lparr>enabled := True, clearItem := True, valueItems := comments,
                 currentIndex := - 1, lineEditText := Some []\<rparr>))"

text \<open>
  The loop of \<^verbatim>\<open>updateTrackMetadataFields\<close> for one tag: \<^verbatim>\<open>addToTagSet\<close> of the
  tag of every record, from the empty set. The tags are strings, compared by their
  characters.
\<close>

definition tagSet :: "(TrackRecord \<Rightarrow> string) \<Rightarrow> TrackRecord list \<Rightarrow> string QSet" where
  "tagSet tag recs = foldl (\<lambda>s r. addToTagSet (=) s (tag r)) [] recs"

text \<open>\<^verbatim>\<open>updateTrackMetadataFields()\<close>, for the editable fields.\<close>

definition updateTrackMetadataFields :: "'w DlgTrackInfoMulti \<Rightarrow> 'w DlgTrackInfoMulti" where
  "updateTrackMetadataFields d =
     (let recs = m_trackRecords d;
          (ed, box) = addValuesToCommentBox (txtComment d) (txtCommentBox d)
                        (tagSet (\<lambda>r. comment (trackInfo r)) recs)
      in d\<lparr>txtTitle := addValuesToComboBox (txtTitle d)
                          (tagSet (\<lambda>r. title (trackInfo r)) recs) False,
            txtArtist := addValuesToComboBox (txtArtist d)
                          (tagSet (\<lambda>r. artist (trackInfo r)) recs) False,
            txtAlbum := addValuesToComboBox (txtAlbum d)
                          (tagSet (\<lambda>r. albumTitle (albumInfo r)) recs) False,
            txtAlbumArtist := addValuesToComboBox (txtAlbumArtist d)
                          (tagSet (\<lambda>r. albumArtist (albumInfo r)) recs) False,
            txtGenre := addValuesToComboBox (txtGenre d)
                          (tagSet (\<lambda>r. genre (trackInfo r)) recs) False,
            txtComposer := addValuesToComboBox (txtComposer d)
                          (tagSet (\<lambda>r. composer (trackInfo r)) recs) False,
            txtGrouping := addValuesToComboBox (txtGrouping d)
                          (tagSet (\<lambda>r. grouping (trackInfo r)) recs) False,
            txtYear := addValuesToComboBox (txtYear d)
                          (tagSet (\<lambda>r. year (trackInfo r)) recs) True,
            txtKey := addValuesToComboBox (txtKey d)
                          (tagSet (\<lambda>r. keyText (trackInfo r)) recs) True,
            txtTrackNumber := addValuesToComboBox (txtTrackNumber d)
                          (tagSet (\<lambda>r. trackNumber (trackInfo r)) recs) True,
            txtComment := ed,
            txtCommentBox := box\<rparr>)"

text \<open>
  The rating loop of \<^verbatim>\<open>updateFromTracks\<close>: the common rating, or 0 at the first
  record that differs.
\<close>

fun commonRatingOf :: "int \<Rightarrow> TrackRecord list \<Rightarrow> int" where
  "commonRatingOf commonRating [] = commonRating"
| "commonRatingOf commonRating (r # rs) =
     (if commonRating \<noteq> rating r then 0 else commonRatingOf commonRating rs)"

text \<open>
  \<^verbatim>\<open>updateFromTracks()\<close>: the records are read from the loaded tracks, the fields are
  filled from them, and the rating and colour edits are reset.
  \<^verbatim>\<open>m_trackRecords.first()\<close> stops the program on an empty list.
\<close>

definition updateFromTracks :: "'w deps \<Rightarrow> 'w dialog_state \<Rightarrow> error + 'w dialog_state" where
  "updateFromTracks D w =
     (case getRecords (m_pLoadedTracks (dlg w)) (tracks w) of
        Inl e \<Rightarrow> Inl e
      | Inr trackRecords \<Rightarrow>
          (let d1 = updateTrackMetadataFields ((dlg w)\<lparr>m_trackRecords := trackRecords\<rparr>)
           in case m_trackRecords d1 of
                [] \<Rightarrow> Inl EmptyListAccess
              | r0 # _ \<Rightarrow>
                  Inr (w\<lparr>dlg := d1\<lparr>starRating := commonRatingOf (rating r0) (m_trackRecords d1),
                                    m_starRatingModified := False,
                                    m_colorChanged := False,
                                    m_newColor := None,
                                    otherWidgets :=
                                      updateOtherWidgets D (m_trackRecords d1)
                                        (m_pLoadedTracks d1) (otherWidgets d1)\<rparr>\<rparr>)))"

text \<open>
  \<^verbatim>\<open>saveTracks()\<close>. With no track loaded it returns at once. Otherwise it checks the
  edited values (a focused key box loses and regains the focus first, which runs
  \<^verbatim>\<open>slotKeyTextChanged\<close>), writes them into every record of \<^verbatim>\<open>m_trackRecords\<close>,
  disconnects the tracks' signals, replaces the record of every track, connects the
  signals again and fills the dialog from the tracks.
\<close>

definition saveTracks :: "'w deps \<Rightarrow> 'w dialog_state \<Rightarrow> error + 'w dialog_state" where
  "saveTracks D w =
     (let d = dlg w in
      if m_pLoadedTracks d = [] then Inr w
      else
        let keyBox = (if hasFocus (txtKey d) then slotKeyTextChanged D (txtKey d)
                      else txtKey d);
            origVal' = editOrigVal (txtComment d);
            currVal = plainText (txtComment d);
            e = \<lparr>e_title = validEditText (txtTitle d),
                 e_artist = validEditText (txtArtist d),
                 e_album = validEditText (txtAlbum d),
                 e_albumArtist = validEditText (txtAlbumArtist d),
                 e_genre = validEditText (txtGenre d),
                 e_composer = validEditText (txtComposer d),
                 e_grouping = validEditText (txtGrouping d),
                 e_year = validEditText (txtYear d),
                 e_key = validEditText keyBox,
                 e_num = validEditText (txtTrackNumber d),
                 e_comment = (if isNull (editPlaceholderText (txtComment d))
                                 \<and> \<not> qeq currVal origVal'
                              then trimmed currVal else None)\<rparr>;
            recs = map (applyEdits D e (m_colorChanged d) (m_newColor d)
                          (m_starRatingModified d) (m_newRating d)) (m_trackRecords d);
            ts1 = disconnectTracksChanged (m_pLoadedTracks d) (tracks w)
        in case replaceRecords (m_pLoadedTracks d) recs ts1 of
             Inl err \<Rightarrow> Inl err
           | Inr ts2 \<Rightarrow>
               updateFromTracks D
                 \<lparr>dlg = d\<lparr>m_trackRecords := recs, txtKey := keyBox\<rparr>,
                  tracks = connectTracksChanged (m_pLoadedTracks d) ts2\<rparr>)"

text \<open>
  The dialog as its constructor leaves it: no track loaded, no rating or colour edit
  pending, every box and the comment editor empty.
\<close>

definition newComboBox :: QComboBox where
  "newComboBox =
     \<lparr>origVal = None, currentIndex = - 1, lineEditText = Some [], placeholderText = None,
      valueItems = [], clearItem = False, itemsSorted = False, enabled = True,
      hasFocus = False\<rparr>"

definition newDialog :: "'w \<Rightarrow> 'w DlgTrackInfoMulti" where
  "newDialog other =
     \<lparr>m_pLoadedTracks = [], m_trackRecords = [],
      m_starRatingModified = False, m_newRating = 0,
      m_colorChanged = False, m_newColor = None,
      txtTitle = newComboBox, txtArtist = newComboBox, txtAlbum = newComboBox,
      txtAlbumArtist = newComboBox, txtGenre = newComboBox, txtComposer = newComboBox,
      txtGrouping = newComboBox, txtYear = newComboBox, txtKey = newComboBox,
      txtTrackNumber = newComboBox,
      txtComment = \<lparr>plainText = Some [], editPlaceholderText = None, editOrigVal = None\<rparr>,
      txtCommentBox = newComboBox, starRating = 0, otherWidgets = other\<rparr>"

section \<open>The clipping stage of the engine\<close>

text \<open>
  \<^verbatim>\<open>CSAMPLE\<close> is the engine's sample type; samples are modelled by their real
  values.
\<close>

type_synonym CSAMPLE = real

text \<open>
  The control registry maps a (group, name) pair to a double. \<^verbatim>\<open>ControlEngine *bulb\<close>,
  the clip indicator the node holds, is the key of its entry.
\<close>

type_synonym control_key = "string \<times> string"
type_synonym ControlRegistry = "control_key \<rightharpoonup> double"

text \<open>
  \<^verbatim>\<open>class EngineClipping\<close>: the private members \<^verbatim>\<open>bulb\<close> and \<^verbatim>\<open>buffer\<close>
  (the node's own sample buffer, modelled by its contents).
\<close>

record EngineClipping =
  bulb :: control_key
  buffer :: "CSAMPLE list"

text \<open>What a member function of the node can reach: the node and the registry.\<close>

record engine_state =
  node :: EngineClipping
  controls :: ControlRegistry

text \<open>\<^verbatim>\<open>void notify(double) {};\<close>: the body is empty.\<close>

definition notify :: "double \<Rightarrow> engine_state \<Rightarrow> engine_state" where
  "notify v st = st"

text \<open>
  Modelled from the spec: the clamp that \<^verbatim>\<open>EngineClipping::process\<close> applies to one
  sample. The header only declares \<^verbatim>\<open>process\<close>; its body is not among the sources.
  Spec: "if its magnitude exceeds a fixed ceiling, clamp it to the ceiling while
  preserving sign".
\<close>

definition clamp_sample :: "real \<Rightarrow> CSAMPLE \<Rightarrow> CSAMPLE" where
  "clamp_sample cap x =
     (if \<bar>x\<bar> > cap then (if x < 0 then - cap else cap) else x)"

text \<open>
  Modelled from the spec: the scan of \<^verbatim>\<open>EngineClipping::process\<close> over the first
  \<open>n\<close> samples of the buffer (its body is not among the sources). Spec: "for each
  sample in the input ... clamp it ... and mark that this invocation produced at least
  one clamp". The samples after the first \<open>n\<close> are not touched; the scan stops at the
  end of the buffer.
\<close>

fun scan_frames :: "real \<Rightarrow> nat \<Rightarrow> CSAMPLE list \<Rightarrow> bool \<Rightarrow> CSAMPLE list \<times> bool" where
  "scan_frames cap 0 xs clipped = (xs, clipped)"
| "scan_frames cap (Suc n) [] clipped = ([], clipped)"
| "scan_frames cap (Suc n) (x # xs) clipped =
     (let (ys, clipped') =
        scan_frames cap n xs (if \<bar>x\<bar> > cap then True else clipped)
      in (clamp_sample cap x # ys, clipped'))"

text \<open>
  Modelled from the spec: \<^verbatim>\<open>EngineClipping::process(const CSAMPLE *, const int)\<close>,
  whose body is not among the sources. Spec: the buffer is clamped in place and
  returned, and "after scanning all frames, write 1.0 to the indicator ControlValue if
  any clamp occurred during this call, else write 0.0". The ceiling is a parameter, and
  \<open>frameCount\<close> counts the samples of the buffer to scan (none when it is negative).
  The result is the new content of the buffer and the new state.
\<close>

definition process ::
  "real \<Rightarrow> engine_state \<Rightarrow> CSAMPLE list \<Rightarrow> int \<Rightarrow> CSAMPLE list \<times> engine_state" where
  "process cap st input frameCount =
     (let (out, clipped) = scan_frames cap (nat frameCount) input False
      in (out,
          st\<lparr>controls :=
               (controls st)(bulb (node st) \<mapsto> Finite (if clipped then 1 else 0))\<rparr>))"

section \<open>Theorems\<close>

subsection \<open>Tag sets\<close>

lemma QSet_contains_iff: "QSet_contains eq s x = (\<exists>e \<in> set s. eq x e)"
  by (simp add: QSet_contains_def list_ex_iff)

lemma addToTagSet_cases:
  "addToTagSet eq s v = (if QSet_contains eq s v then s else s @ [v])"
  by (simp add: addToTagSet_def QSet_insert_def)

lemma double_eq_trans: "double_eq a b \<Longrightarrow> double_eq b c \<Longrightarrow> double_eq a c"
  by (cases a; cases b; cases c) simp_all

text \<open>
  C9, as the claim states it, fails at a set of doubles that holds a NaN: the NaN is
  not equal to itself, so \<open>contains\<close> does not find it and \<open>addToTagSet\<close> adds a
  second entry. Inserting the NaN twice is not inserting it once.
\<close>

theorem addToTagSet_nan_counterexample:
  "addToTagSet double_eq [] NaN = [NaN]
   \<and> addToTagSet double_eq [NaN] NaN = [NaN, NaN]
   \<and> addToTagSet double_eq (addToTagSet double_eq [] NaN) NaN \<noteq> addToTagSet double_eq [] NaN"
  by (simp add: addToTagSet_def QSet_insert_def QSet_contains_def QSet_isEmpty_def)

text \<open>
  C9, amended. Let \<open>v\<close> be equal to itself under the element type's \<open>operator==\<close>
  (every string and integer, and every double but a NaN), and let that \<open>operator==\<close> be
  transitive. Then \<open>addToTagSet s v\<close> contains exactly what \<open>s\<close> contains and \<open>v\<close>;
  when \<open>v\<close> is an entry of \<open>s\<close>, or equal to one, the set is unchanged; when \<open>s\<close>
  does not contain \<open>v\<close>, the one entry \<open>v\<close> is added; and inserting \<open>v\<close> twice is
  inserting it once.
\<close>

theorem addToTagSet_reflexive:
  assumes refl: "eq v v"
    and trans: "\<forall>a b c. eq a b \<longrightarrow> eq b c \<longrightarrow> eq a c"
  shows "(\<forall>x. QSet_contains eq (addToTagSet eq s v) x = (QSet_contains eq s x \<or> eq x v))
         \<and> (v \<in> set s \<longrightarrow> addToTagSet eq s v = s)
         \<and> (QSet_contains eq s v \<longrightarrow> addToTagSet eq s v = s)
         \<and> (\<not> QSet_contains eq s v \<longrightarrow> addToTagSet eq s v = s @ [v])
         \<and> addToTagSet eq (addToTagSet eq s v) v = addToTagSet eq s v"
proof (cases "QSet_contains eq s v")
  case True
  then obtain e0 where e0: "e0 \<in> set s" "eq v e0"
    by (auto simp: QSet_contains_iff)
  have r: "addToTagSet eq s v = s"
    using True by (simp add: addToTagSet_cases)
  have "QSet_contains eq s x = (QSet_contains eq s x \<or> eq x v)" for x
  proof (cases "eq x v")
    case True
    with e0 trans have "eq x e0" by blast
    with e0 show ?thesis by (auto simp: QSet_contains_iff)
  next
    case False
    then show ?thesis by simp
  qed
  with r True show ?thesis by simp
next
  case False
  have "v \<notin> set s"
    using False refl by (auto simp: QSet_contains_iff)
  moreover have r: "addToTagSet eq s v = s @ [v]"
    using False by (simp add: addToTagSet_cases)
  moreover have "QSet_contains eq (s @ [v]) v"
    using refl by (simp add: QSet_contains_iff)
  then have "addToTagSet eq (s @ [v]) v = s @ [v]"
    by (simp add: addToTagSet_cases)
  moreover have "QSet_contains eq (s @ [v]) x = (QSet_contains eq s x \<or> eq x v)" for x
    by (auto simp: QSet_contains_iff)
  ultimately show ?thesis using False by simp
qed

theorem addToTagSet_reflexive_witness:
  "double_eq (Finite 2) (Finite 2)
   \<and> addToTagSet double_eq [NaN, Finite 2] (Finite 2) = [NaN, Finite 2]
   \<and> addToTagSet double_eq [NaN, Finite 2] (Finite 3) = [NaN, Finite 2, Finite 3]
   \<and> addToTagSet double_eq (addToTagSet double_eq [NaN, Finite 2] (Finite 3)) (Finite 3)
       = addToTagSet double_eq [NaN, Finite 2] (Finite 3)
   \<and> addToTagSet (=) [''a''] ''a'' = [''a'']"
proof -
  have r2: "double_eq (Finite 2) (Finite 2)" by simp
  have r3: "double_eq (Finite 3) (Finite 3)" by simp
  have ra: "''a'' = ''a''" by simp
  have tr: "\<forall>a b c :: string. a = b \<longrightarrow> b = c \<longrightarrow> a = c" by simp
  have td: "\<forall>a b c. double_eq a b \<longrightarrow> double_eq b c \<longrightarrow> double_eq a c"
    using double_eq_trans by blast
  have m2: "Finite 2 \<in> set [NaN, Finite 2]" by simp
  have n3: "\<not> QSet_contains double_eq [NaN, Finite 2] (Finite 3)"
    by (simp add: QSet_contains_def)
  have ma: "''a'' \<in> set [''a'']" by simp
  have c1: "addToTagSet double_eq [NaN, Finite 2] (Finite 2) = [NaN, Finite 2]"
    using addToTagSet_reflexive [of double_eq "Finite 2" "[NaN, Finite 2]", OF r2 td]
      m2 by blast
  have c2: "addToTagSet double_eq [NaN, Finite 2] (Finite 3) = [NaN, Finite 2, Finite 3]"
    using addToTagSet_reflexive [of double_eq "Finite 3" "[NaN, Finite 2]", OF r3 td]
      n3 by simp
  have c3: "addToTagSet double_eq (addToTagSet double_eq [NaN, Finite 2] (Finite 3)) (Finite 3)
       = addToTagSet double_eq [NaN, Finite 2] (Finite 3)"
    using addToTagSet_reflexive [of double_eq "Finite 3" "[NaN, Finite 2]", OF r3 td]
    by blast
  have c4: "addToTagSet (=) [''a''] ''a'' = [''a'']"
    using addToTagSet_reflexive [of "(=)" "''a''" "[''a'']", OF ra tr] ma by blast
  show ?thesis using r2 c1 c2 c3 c4 by blast
qed

subsection \<open>Saving with no track loaded\<close>

text \<open>
  C10. When no track is loaded (\<open>m_pLoadedTracks\<close> is empty), \<open>saveTracks\<close> returns
  at once: the dialog (its track records, pending edits and widgets) and every track of
  the store are what they were.
\<close>

theorem saveTracks_no_tracks:
  assumes "m_pLoadedTracks (dlg w) = []"
  shows "saveTracks D w = Inr w"
  using assms by (simp add: saveTracks_def Let_def)

theorem saveTracks_no_tracks_witness:
  "m_pLoadedTracks
     (dlg \<lparr>dlg = (newDialog ())\<lparr>m_starRatingModified := True, m_newRating := 3\<rparr>,
           tracks = [7 \<mapsto> \<lparr>trackRecord =
                               \<lparr>trackId = 1,
                                trackInfo = \<lparr>title = ''Old'', artist = [], genre = [],
                                             composer = [], grouping = [], year = [],
                                             keyText = [], trackNumber = [], comment = []\<rparr>,
                                albumInfo = \<lparr>albumTitle = [], albumArtist = []\<rparr>,
                                color = None, rating = 0\<rparr>,
                             changedConnections = 0\<rparr>]\<rparr>) = []
   \<and> saveTracks
       \<lparr>guessKeyText = \<lambda>t. None, updateGlobalKeyNormalizeText = \<lambda>k r. r,
        updateOtherWidgets = \<lambda>recs loaded x. x\<rparr>
       \<lparr>dlg = (newDialog ())\<lparr>m_starRatingModified := True, m_newRating := 3\<rparr>,
        tracks = [7 \<mapsto> \<lparr>trackRecord =
                            \<lparr>trackId = 1,
                             trackInfo = \<lparr>title = ''Old'', artist = [], genre = [],
                                          composer = [], grouping = [], year = [],
                                          keyText = [], trackNumber = [], comment = []\<rparr>,
                             albumInfo = \<lparr>albumTitle = [], albumArtist = []\<rparr>,
                             color = None, rating = 0\<rparr>,
                          changedConnections = 0\<rparr>]\<rparr>
     = Inr \<lparr>dlg = (newDialog ())\<lparr>m_starRatingModified := True, m_newRating := 3\<rparr>,
            tracks = [7 \<mapsto> \<lparr>trackRecord =
                                \<lparr>trackId = 1,
                                 trackInfo = \<lparr>title = ''Old'', artist = [], genre = [],
                                              composer = [], grouping = [], year = [],
                                              keyText = [], trackNumber = [], comment = []\<rparr>,
                                 albumInfo = \<lparr>albumTitle = [], albumArtist = []\<rparr>,
                                 color = None, rating = 0\<rparr>,
                              changedConnections = 0\<rparr>]\<rparr>"
proof -
  have h: "m_pLoadedTracks
     (dlg \<lparr>dlg = (newDialog ())\<lparr>m_starRatingModified := True, m_newRating := 3\<rparr>,
           tracks = [7 \<mapsto> \<lparr>trackRecord =
                               \<lparr>trackId = 1,
                                trackInfo = \<lparr>title = ''Old'', artist = [], genre = [],
                                             composer = [], grouping = [], year = [],
                                             keyText = [], trackNumber = [], comment = []\<rparr>,
                                albumInfo = \<lparr>albumTitle = [], albumArtist = []\<rparr>,
                                color = None, rating = 0\<rparr>,
                             changedConnections = 0\<rparr>]\<rparr>) = []"
    by (simp add: newDialog_def)
  from h saveTracks_no_tracks [OF h] show ?thesis by (rule conjI)
qed

text \<open>
  With a track loaded the same call does write. One track is loaded, its title is
  \<open>Old\<close>, and the title box holds the edited text \<open>New\<close> followed by a blank:
  the call trims the text, stores it in the track behind the pointer, fills the box
  from the track and leaves the signal connected once.
\<close>

lemma saveTracks_loaded_track_written:
  "(case saveTracks
           \<lparr>guessKeyText = \<lambda>t. None, updateGlobalKeyNormalizeText = \<lambda>k r. r,
            updateOtherWidgets = \<lambda>recs loaded x. x\<rparr>
           \<lparr>dlg = (newDialog ())
                    \<lparr>m_pLoadedTracks := [(1, 7)],
                     m_trackRecords :=
                       [\<lparr>trackId = 1,
                         trackInfo = \<lparr>title = ''Old'', artist = [], genre = [],
                                      composer = [], grouping = [], year = [],
                                      keyText = [], trackNumber = [], comment = []\<rparr>,
                         albumInfo = \<lparr>albumTitle = [], albumArtist = []\<rparr>,
                         color = None, rating = 0\<rparr>],
                     txtTitle := newComboBox\<lparr>origVal := Some ''Old'',
                                              lineEditText := Some ''New ''\<rparr>\<rparr>,
            tracks = [7 \<mapsto> \<lparr>trackRecord =
                                \<lparr>trackId = 1,
                                 trackInfo = \<lparr>title = ''Old'', artist = [], genre = [],
                                              composer = [], grouping = [], year = [],
                                              keyText = [], trackNumber = [], comment = []\<rparr>,
                                 albumInfo = \<lparr>albumTitle = [], albumArtist = []\<rparr>,
                                 color = None, rating = 0\<rparr>,
                              changedConnections = 1\<rparr>]\<rparr>
    of Inl err \<Rightarrow> None
     | Inr w' \<Rightarrow>
         Some (map_option (\<lambda>t. title (trackInfo (trackRecord t))) (tracks w' 7),
               map (\<lambda>r. title (trackInfo r)) (m_trackRecords (dlg w')),
               lineEditText (txtTitle (dlg w')),
               origVal (txtTitle (dlg w')),
               map_option changedConnections (tracks w' 7)))
   = Some (Some ''New'', [''New''], Some ''New'', Some ''New'', Some 1)"
  by code_simp

subsection \<open>The clipping stage\<close>

text \<open>
  C8. For every double \<open>v\<close>, \<open>notify v\<close> leaves the node (indicator binding and
  buffer) and the control registry as they were, so whatever runs next, a
  \<open>process\<close> call included, sees the state it would have seen without the call.
\<close>

theorem notify_noop:
  "notify v st = st
   \<and> node (notify v st) = node st
   \<and> controls (notify v st) = controls st
   \<and> next_call (notify v st) = next_call st"
  by (simp add: notify_def)

lemma scan_frames_eq:
  "scan_frames cap n xs b =
     (map (clamp_sample cap) (take n xs) @ drop n xs,
      b \<or> (\<exists>x \<in> set (take n xs). \<bar>x\<bar> > cap))"
proof (induction cap n xs b rule: scan_frames.induct)
  case (1 cap xs clipped)
  show ?case by simp
next
  case (2 cap n clipped)
  show ?case by simp
next
  case (3 cap n x xs clipped)
  then show ?case by auto
qed

lemma process_samples:
  "fst (process cap st input frameCount) =
     map (clamp_sample cap) (take (nat frameCount) input) @ drop (nat frameCount) input"
  by (simp add: process_def scan_frames_eq)

lemma process_indicator:
  "controls (snd (process cap st input frameCount)) (bulb (node st)) =
     Some (Finite (if (\<exists>x \<in> set (take (nat frameCount) input). \<bar>x\<bar> > cap) then 1 else 0))"
  by (simp add: process_def scan_frames_eq)

lemma process_node: "node (snd (process cap st input frameCount)) = node st"
  by (simp add: process_def scan_frames_eq)

lemma clamp_sample_sgn:
  "0 \<le> cap \<Longrightarrow> clamp_sample cap x = (if \<bar>x\<bar> > cap then sgn x * cap else x)"
  by (auto simp: clamp_sample_def sgn_real_def)

lemma set_take_nth:
  "(\<exists>x \<in> set (take n xs). P x) = (\<exists>i. i < length xs \<and> i < n \<and> P (xs ! i))"
proof
  assume "\<exists>x \<in> set (take n xs). P x"
  then obtain x where "x \<in> set (take n xs)" and px: "P x" by blast
  then obtain i where "i < length (take n xs)" and "take n xs ! i = x"
    by (auto simp: in_set_conv_nth)
  then have "i < length xs \<and> i < n \<and> P (xs ! i)" using px by simp
  then show "\<exists>i. i < length xs \<and> i < n \<and> P (xs ! i)" by blast
next
  assume "\<exists>i. i < length xs \<and> i < n \<and> P (xs ! i)"
  then obtain i where i: "i < length xs" "i < n" "P (xs ! i)" by blast
  then have "take n xs ! i \<in> set (take n xs)" by (intro nth_mem) simp
  then show "\<exists>x \<in> set (take n xs). P x" using i by auto
qed

text \<open>
  C1. With a ceiling \<open>cap\<close> (an amplitude limit, so not negative), every sample \<open>x\<close>
  that \<open>process\<close> scans comes out as \<open>sgn x * cap\<close> when \<open>\<bar>x\<bar> > cap\<close> and as \<open>x\<close>
  itself when \<open>\<bar>x\<bar> \<le> cap\<close>; the buffer \<open>[0.5, -1.5, 0.9, 1.2]\<close> with ceiling \<open>1\<close>
  becomes \<open>[0.5, -1, 0.9, 1]\<close>.
\<close>

theorem process_clamps:
  assumes "0 \<le> cap"
  shows "(\<forall>i. i < length input \<and> i < nat frameCount \<longrightarrow>
            fst (process cap st input frameCount) ! i =
              (if \<bar>input ! i\<bar> > cap then sgn (input ! i) * cap else input ! i))
         \<and> fst (process 1 st [0.5, -1.5, 0.9, 1.2] 4) = [0.5, -1, 0.9, 1]"
proof -
  have "fst (process cap st input frameCount) ! i =
          (if \<bar>input ! i\<bar> > cap then sgn (input ! i) * cap else input ! i)"
    if "i < length input" and "i < nat frameCount" for i
  proof -
    from that have "i < length (map (clamp_sample cap) (take (nat frameCount) input))"
      by simp
    then have "fst (process cap st input frameCount) ! i =
                 map (clamp_sample cap) (take (nat frameCount) input) ! i"
      by (simp only: process_samples nth_append if_True)
    also have "\<dots> = clamp_sample cap (input ! i)"
      using that by simp
    finally show ?thesis
      using assms by (simp only: clamp_sample_sgn)
  qed
  moreover have "fst (process 1 st [0.5, -1.5, 0.9, 1.2] 4) = [0.5, -1, 0.9, 1]"
    by (simp add: process_samples clamp_sample_def)
  ultimately show ?thesis by blast
qed

theorem process_clamps_witness:
  "(0::real) \<le> 1
   \<and> fst (process 1 \<lparr>node = \<lparr>bulb = (''Master'', ''clipping''), buffer = []\<rparr>,
                      controls = Map.empty\<rparr> [0.5, -1.5, 0.9, 1.2] 4) ! 1 = - 1
   \<and> fst (process 1 \<lparr>node = \<lparr>bulb = (''Master'', ''clipping''), buffer = []\<rparr>,
                      controls = Map.empty\<rparr> [0.5, -1.5, 0.9, 1.2] 4) ! 2 = 0.9
   \<and> fst (process 1 \<lparr>node = \<lparr>bulb = (''Master'', ''clipping''), buffer = []\<rparr>,
                      controls = Map.empty\<rparr> [0.5, -1.5, 0.9, 1.2] 4) = [0.5, - 1, 0.9, 1]"
proof -
  have h: "(0::real) \<le> 1" by simp
  note t = process_clamps [OF h, of "[0.5, -1.5, 0.9, 1.2]" 4
      "\<lparr>node = \<lparr>bulb = (''Master'', ''clipping''), buffer = []\<rparr>, controls = Map.empty\<rparr>"]
  from t have a: "\<And>i. i < length [0.5, -1.5, 0.9, 1.2 :: real] \<and> i < nat 4 \<Longrightarrow>
      fst (process 1 \<lparr>node = \<lparr>bulb = (''Master'', ''clipping''), buffer = []\<rparr>,
                      controls = Map.empty\<rparr> [0.5, -1.5, 0.9, 1.2] 4) ! i =
        (if \<bar>[0.5, -1.5, 0.9, 1.2 :: real] ! i\<bar> > 1
         then sgn ([0.5, -1.5, 0.9, 1.2 :: real] ! i) * 1 else [0.5, -1.5, 0.9, 1.2] ! i)"
    by blast
  have a1: "fst (process 1 \<lparr>node = \<lparr>bulb = (''Master'', ''clipping''), buffer = []\<rparr>,
                      controls = Map.empty\<rparr> [0.5, -1.5, 0.9, 1.2] 4) ! 1 = - 1"
    using a [of 1] by simp
  have a2: "fst (process 1 \<lparr>node = \<lparr>bulb = (''Master'', ''clipping''), buffer = []\<rparr>,
                      controls = Map.empty\<rparr> [0.5, -1.5, 0.9, 1.2] 4) ! 2 = 0.9"
    using a [of 2] by simp
  from t have a3: "fst (process 1 \<lparr>node = \<lparr>bulb = (''Master'', ''clipping''), buffer = []\<rparr>,
                      controls = Map.empty\<rparr> [0.5, -1.5, 0.9, 1.2] 4) = [0.5, - 1, 0.9, 1]"
    by blast
  show ?thesis using h a1 a2 a3 by blast
qed

text \<open>
  C2. After a \<open>process\<close> call the clip indicator is \<open>1\<close> when the call clamped at
  least one sample and \<open>0\<close> when it clamped none, whatever the registry held before:
  after two calls in a row the indicator tells of the second call only.
\<close>

theorem indicator_memoryless:
  "controls (snd (process cap st input frameCount)) (bulb (node st)) =
     Some (Finite (if (\<exists>i. i < length input \<and> i < nat frameCount \<and> \<bar>input ! i\<bar> > cap)
                   then 1 else 0))
   \<and> controls (snd (process cap (snd (process cap st input frameCount)) input' frameCount'))
        (bulb (node st)) =
     Some (Finite (if (\<exists>i. i < length input' \<and> i < nat frameCount' \<and> \<bar>input' ! i\<bar> > cap)
                   then 1 else 0))"
proof -
  have one: "controls (snd (process cap s xs n)) (bulb (node s)) =
     Some (Finite (if (\<exists>i. i < length xs \<and> i < nat n \<and> \<bar>xs ! i\<bar> > cap) then 1 else 0))"
    for s xs n
    by (simp only: process_indicator set_take_nth)
  have "bulb (node (snd (process cap st input frameCount))) = bulb (node st)"
    by (simp only: process_node)
  with one [of "snd (process cap st input frameCount)" input' frameCount']
  have two: "controls (snd (process cap (snd (process cap st input frameCount)) input' frameCount'))
        (bulb (node st)) =
     Some (Finite (if (\<exists>i. i < length input' \<and> i < nat frameCount' \<and> \<bar>input' ! i\<bar> > cap)
                   then 1 else 0))"
    by simp
  from one [of st input frameCount] two show ?thesis by blast
qed

theorem indicator_memoryless_witness:
  "controls (snd (process 1 \<lparr>node = \<lparr>bulb = (''Master'', ''clipping''), buffer = []\<rparr>,
                            controls = Map.empty\<rparr> [0.5, -1.5, 0.9, 1.2] 4))
     (''Master'', ''clipping'') = Some (Finite 1)
   \<and> controls (snd (process 1
        (snd (process 1 \<lparr>node = \<lparr>bulb = (''Master'', ''clipping''), buffer = []\<rparr>,
                         controls = Map.empty\<rparr> [0.5, -1.5, 0.9, 1.2] 4))
        [0.1, -0.2] 2))
     (''Master'', ''clipping'') = Some (Finite 0)"
proof -
  have e1: "(\<exists>i. i < length [0.5, -1.5, 0.9, 1.2 :: real] \<and> i < nat 4
              \<and> \<bar>[0.5, -1.5, 0.9, 1.2 :: real] ! i\<bar> > 1) = True"
    using set_take_nth [where P = "\<lambda>x. \<bar>x\<bar> > (1::real)" and n = "nat 4"
        and xs = "[0.5, -1.5, 0.9, 1.2]", symmetric]
    by simp
  have e2: "(\<exists>i. i < length [0.1, -0.2 :: real] \<and> i < nat 2
              \<and> \<bar>[0.1, -0.2 :: real] ! i\<bar> > 1) = False"
    using set_take_nth [where P = "\<lambda>x. \<bar>x\<bar> > (1::real)" and n = "nat 2"
        and xs = "[0.1, -0.2]", symmetric]
    by simp
  show ?thesis
    using indicator_memoryless [of 1
      "\<lparr>node = \<lparr>bulb = (''Master'', ''clipping''), buffer = []\<rparr>, controls = Map.empty\<rparr>"
      "[0.5, -1.5, 0.9, 1.2]" 4 "[0.1, -0.2]" 2]
    by (simp only: e1 e2 if_True if_False engine_state.simps EngineClipping.simps)
qed

end
